theory Spec2Isabelle
  imports Complex_Main "HOL-Library.Sublist"
begin

section \<open>Python values and exceptions\<close>

text \<open>
  The values that \<^verbatim>\<open>api.py\<close> builds and passes around are Python's built-in data values:
  dict literals with string keys, lists, strings, numbers, booleans and None. A dict is an
  association list in insertion order. A float is carried as a rational number: every
  finite double is one, and a float literal of the source stands for the double nearest
  to it. The program never computes with a float and never compares two; it only hands
  them on.
\<close>

datatype pyval =
    PNone
  | PBool bool
  | PInt int
  | PFloat rat
  | PStr string
  | PList "pyval list"
  | PDict "(string \<times> pyval) list"

text \<open>
  An exception, as far as the program looks at one: \<^verbatim>\<open>type(e).__name__\<close>,
  \<^verbatim>\<open>str(e)\<close>, and whether its class derives from \<^verbatim>\<open>Exception\<close>. An
  \<^verbatim>\<open>except Exception\<close> clause handles the exceptions that do; \<^verbatim>\<open>KeyboardInterrupt\<close>,
  \<^verbatim>\<open>SystemExit\<close> and \<^verbatim>\<open>GeneratorExit\<close> derive from \<^verbatim>\<open>BaseException\<close> only and pass
  through such a clause.
\<close>

record exn =
  exn_name :: string
  exn_str :: string
  derives_Exception :: bool

definition quote :: "string \<Rightarrow> string" where
  "quote s = [CHR 0x27] @ s @ [CHR 0x27]"

definition AttributeError :: "string \<Rightarrow> string \<Rightarrow> exn" where
  "AttributeError ty a =
     \<lparr>exn_name = ''AttributeError'',
      exn_str = quote ty @ '' object has no attribute '' @ quote a,
      derives_Exception = True\<rparr>"

definition TypeError :: "string \<Rightarrow> exn" where
  "TypeError msg = \<lparr>exn_name = ''TypeError'', exn_str = msg, derives_Exception = True\<rparr>"

definition IndexError :: "string \<Rightarrow> exn" where
  "IndexError msg = \<lparr>exn_name = ''IndexError'', exn_str = msg, derives_Exception = True\<rparr>"

definition KeyError :: "string \<Rightarrow> exn" where
  "KeyError msg = \<lparr>exn_name = ''KeyError'', exn_str = msg, derives_Exception = True\<rparr>"

definition ValueError :: "string \<Rightarrow> exn" where
  "ValueError msg = \<lparr>exn_name = ''ValueError'', exn_str = msg, derives_Exception = True\<rparr>"

fun py_type_name :: "pyval \<Rightarrow> string" where
  "py_type_name PNone = ''NoneType''"
| "py_type_name (PBool _) = ''bool''"
| "py_type_name (PInt _) = ''int''"
| "py_type_name (PFloat _) = ''float''"
| "py_type_name (PStr _) = ''str''"
| "py_type_name (PList _) = ''list''"
| "py_type_name (PDict _) = ''dict''"

text \<open>Truth value of a built-in value, as \<^verbatim>\<open>if v\<close> tests it.\<close>

fun truthy :: "pyval \<Rightarrow> bool" where
  "truthy PNone = False"
| "truthy (PBool b) = b"
| "truthy (PInt i) = (i \<noteq> 0)"
| "truthy (PFloat q) = (q \<noteq> 0)"
| "truthy (PStr s) = (s \<noteq> [])"
| "truthy (PList xs) = (xs \<noteq> [])"
| "truthy (PDict kvs) = (kvs \<noteq> [])"

text \<open>
  Attribute read \<^verbatim>\<open>v.a\<close> on a built-in data value. The names the program reads
  (\<^verbatim>\<open>completion\<close>, \<^verbatim>\<open>choices\<close>, \<^verbatim>\<open>message\<close>, \<^verbatim>\<open>content\<close>, \<^verbatim>\<open>to_json\<close>) are attributes of
  none of dict, list, str, int, float, bool and NoneType, so the read raises
  AttributeError. The function is used at these names only.
\<close>

definition getattr :: "pyval \<Rightarrow> string \<Rightarrow> exn + pyval" where
  "getattr v a = Inl (AttributeError (py_type_name v) a)"

text \<open>The same read on a Python list whose elements are not \<^typ>\<open>pyval\<close>s.\<close>

definition list_getattr :: "'a list \<Rightarrow> string \<Rightarrow> exn + 'b" where
  "list_getattr xs a = Inl (AttributeError ''list'' a)"

text \<open>Subscript \<^verbatim>\<open>v[0]\<close>.\<close>

fun subscript0 :: "pyval \<Rightarrow> exn + pyval" where
  "subscript0 (PList []) = Inl (IndexError ''list index out of range'')"
| "subscript0 (PList (x # _)) = Inr x"
| "subscript0 (PStr []) = Inl (IndexError ''string index out of range'')"
| "subscript0 (PStr (c # _)) = Inr (PStr [c])"
| "subscript0 (PDict _) = Inl (KeyError ''0'')"
| "subscript0 v = Inl (TypeError (quote (py_type_name v) @ '' object is not subscriptable''))"

text \<open>Membership \<^verbatim>\<open>k in v\<close> for a string \<open>k\<close>: a key of a dict, an element of a list,
  a substring of a string; any other value is not iterable.\<close>

fun contains :: "string \<Rightarrow> pyval \<Rightarrow> exn + bool" where
  "contains k (PDict kvs) = Inr (k \<in> fst ` set kvs)"
| "contains k (PList xs) = Inr (PStr k \<in> set xs)"
| "contains k (PStr s) = Inr (sublist k s)"
| "contains k v = Inl (TypeError (''argument of type '' @ quote (py_type_name v) @ '' is not iterable''))"

text \<open>\<^verbatim>\<open>d.get(k, default)\<close> on the keyword arguments.\<close>

type_synonym kwargs = "string \<rightharpoonup> pyval"

definition kwargs_get :: "kwargs \<Rightarrow> string \<Rightarrow> pyval \<Rightarrow> pyval" where
  "kwargs_get kw k d = (case kw k of None \<Rightarrow> d | Some v \<Rightarrow> v)"

section \<open>The upstream completion service\<close>

text \<open>
  What \<^verbatim>\<open>client.chat.completions.create\<close> gives back: a completion object whose
  \<^verbatim>\<open>choices\<close> attribute is a list of choices, each with a message that has a content; or,
  for a streaming request, a stream object, which has no \<^verbatim>\<open>choices\<close> attribute. The call
  may also raise. A client is its completion call: a function from the parameter record
  to an exception or a response.
\<close>

datatype chat_message = ChatCompletionMessage (content: "string option")

datatype choice = Choice (message: chat_message)

datatype response = ChatCompletion (choices: "choice list") | Stream

type_synonym client = "pyval \<Rightarrow> exn + response"

section \<open>ChatAPI\<close>

record ChatAPI =
  endpoint :: string
  deployment :: string
  api_version :: string
  client :: client

subsection \<open>Construction\<close>

type_synonym environ = "string \<rightharpoonup> string"

text \<open>\<^verbatim>\<open>_get_required_env\<close>: \<^verbatim>\<open>not value\<close> holds for None and for the empty string.\<close>

definition get_required_env :: "environ \<Rightarrow> string \<Rightarrow> exn + string" where
  "get_required_env env var_name =
     (case env var_name of
        None \<Rightarrow> Inl (ValueError (''Missing required environment variable: '' @ var_name))
      | Some val \<Rightarrow>
          if val = [] then Inl (ValueError (''Missing required environment variable: '' @ var_name))
          else Inr val)"

text \<open>
  The three library constructors that \<^verbatim>\<open>_initialize_client\<close> calls belong to the Azure
  and OpenAI packages; they are parameters of the model, and each may raise. The
  \<^verbatim>\<open>except Exception\<close> clause of line 77 wraps an exception that derives from
  \<^verbatim>\<open>Exception\<close>; any other leaves the function as it is.
\<close>

record ('cred, 'prov) sdk =
  ClientSecretCredential :: "string \<Rightarrow> string \<Rightarrow> string \<Rightarrow> exn + 'cred"
  get_bearer_token_provider :: "'cred \<Rightarrow> string \<Rightarrow> exn + 'prov"
  AzureOpenAI :: "string \<Rightarrow> 'prov \<Rightarrow> string \<Rightarrow> exn + client"

definition initialize_client ::
  "('cred, 'prov) sdk \<Rightarrow> environ \<Rightarrow> string \<Rightarrow> string \<Rightarrow> exn + client" where
  "initialize_client lib env self_endpoint self_api_version =
     (let attempt =
        (case get_required_env env ''AZURE_TENANT_ID'' of
           Inl e \<Rightarrow> Inl e
         | Inr tenant_id \<Rightarrow>
        (case get_required_env env ''AZURE_CLIENT_ID'' of
           Inl e \<Rightarrow> Inl e
         | Inr client_id \<Rightarrow>
        (case get_required_env env ''AZURE_CLIENT_SECRET'' of
           Inl e \<Rightarrow> Inl e
         | Inr client_secret \<Rightarrow>
        (case ClientSecretCredential lib tenant_id client_id client_secret of
           Inl e \<Rightarrow> Inl e
         | Inr credential \<Rightarrow>
        (case get_bearer_token_provider lib credential
                ''https://cognitiveservices.azure.com/.default'' of
           Inl e \<Rightarrow> Inl e
         | Inr token_provider \<Rightarrow>
             AzureOpenAI lib self_endpoint token_provider self_api_version)))))
      in case attempt of
           Inl e \<Rightarrow>
             if derives_Exception e then
               Inl \<lparr>exn_name = ''Exception'',
                    exn_str = ''Failed to initialize Azure OpenAI client: '' @ exn_str e,
                    derives_Exception = True\<rparr>
             else Inl e
         | Inr c \<Rightarrow> Inr c)"

definition ChatAPI_init :: "('cred, 'prov) sdk \<Rightarrow> environ \<Rightarrow> exn + ChatAPI" where
  "ChatAPI_init lib env =
     (case get_required_env env ''AZURE_OPENAI_ENDPOINT'' of
        Inl e \<Rightarrow> Inl e
      | Inr self_endpoint \<Rightarrow>
     (case get_required_env env ''AZURE_OPENAI_DEPLOYMENT_NAME'' of
        Inl e \<Rightarrow> Inl e
      | Inr self_deployment \<Rightarrow>
          let self_api_version =
                (case env ''AZURE_OPENAI_API_VERSION'' of
                   None \<Rightarrow> ''2025-01-01-preview''
                 | Some v \<Rightarrow> v)
          in (case initialize_client lib env self_endpoint self_api_version of
                Inl e \<Rightarrow> Inl e
              | Inr c \<Rightarrow>
                  Inr \<lparr>endpoint = self_endpoint, deployment = self_deployment,
                       api_version = self_api_version, client = c\<rparr>)))"

text \<open>
  The module builds \<^verbatim>\<open>chat_api = ChatAPI()\<close> at import time, before any route is
  registered: an exception there ends the process, and the server is never started.
\<close>

datatype process = Aborted exn | Serving ChatAPI

definition startup :: "('cred, 'prov) sdk \<Rightarrow> environ \<Rightarrow> process" where
  "startup lib env =
     (case ChatAPI_init lib env of Inl e \<Rightarrow> Aborted e | Inr chat_api \<Rightarrow> Serving chat_api)"

subsection \<open>Message assembly\<close>

definition build_messages :: "string \<Rightarrow> string option \<Rightarrow> pyval list" where
  "build_messages user_message system_message =
     (let messages = [];
          messages =
            (case system_message of
               None \<Rightarrow>
                 messages @
                   [PDict [(''role'', PStr ''system''),
                           (''content'', PList [PDict [(''type'', PStr ''text''),
                              (''text'', PStr ''You are an AI assistant that helps people find information.'')]])]]
             | Some s \<Rightarrow>
                 if s \<noteq> [] then
                   messages @
                     [PDict [(''role'', PStr ''system''),
                             (''content'', PList [PDict [(''type'', PStr ''text''),
                                (''text'', PStr s)]])]]
                 else
                   messages @
                     [PDict [(''role'', PStr ''system''),
                             (''content'', PList [PDict [(''type'', PStr ''text''),
                                (''text'', PStr ''You are an AI assistant that helps people find information.'')]])]]);
          messages =
            messages @
              [PDict [(''role'', PStr ''user''),
                      (''content'', PList [PDict [(''type'', PStr ''text''),
                         (''text'', PStr user_message)]])]]
      in messages)"

subsection \<open>The completion call\<close>

text \<open>
  Line 113, \<^verbatim>\<open>json.loads(completion.choices.message.content.to_json())\<close>, read from left
  to right. \<^verbatim>\<open>completion.choices\<close> is the list of choices, and the next attribute,
  \<^verbatim>\<open>message\<close>, is read on that list, not on one of its elements.
\<close>

definition completion_content_json :: "response \<Rightarrow> exn + pyval" where
  "completion_content_json completion =
     (case completion of
        Stream \<Rightarrow> Inl (AttributeError ''Stream'' ''choices'')
      | ChatCompletion cs \<Rightarrow>
          (case list_getattr cs ''message'' of
             Inl e \<Rightarrow> Inl e
           | Inr m \<Rightarrow>
               (case content m of
                  None \<Rightarrow> Inl (AttributeError ''NoneType'' ''to_json'')
                | Some s \<Rightarrow> Inl (AttributeError ''str'' ''to_json''))))"

text \<open>
  \<^verbatim>\<open>create_chat_completion\<close> returns its result together with the parameter records it
  passed to the upstream call, in order. The \<^verbatim>\<open>except Exception\<close> clause of line 115
  turns an exception of the body that derives from \<^verbatim>\<open>Exception\<close> into the error dict;
  any other exception leaves the function.
\<close>

definition create_chat_completion ::
  "ChatAPI \<Rightarrow> string \<Rightarrow> string option \<Rightarrow> kwargs \<Rightarrow> (exn + pyval) \<times> pyval list" where
  "create_chat_completion self user_message system_message kw =
     (let messages = build_messages user_message system_message;
          params = PDict
            [(''model'', PStr (deployment self)),
             (''messages'', PList messages),
             (''max_tokens'', kwargs_get kw ''max_tokens'' (PInt 800)),
             (''temperature'', kwargs_get kw ''temperature'' (PFloat (7 / 10))),
             (''top_p'', kwargs_get kw ''top_p'' (PFloat (95 / 100))),
             (''frequency_penalty'', kwargs_get kw ''frequency_penalty'' (PInt 0)),
             (''presence_penalty'', kwargs_get kw ''presence_penalty'' (PInt 0)),
             (''stop'', kwargs_get kw ''stop'' PNone),
             (''stream'', kwargs_get kw ''stream'' (PBool False))];
          attempt =
            (case client self params of
               Inl e \<Rightarrow> Inl e
             | Inr completion \<Rightarrow> completion_content_json completion)
      in (case attempt of
            Inl e \<Rightarrow>
              if derives_Exception e then
                Inr (PDict [(''error'', PStr (exn_str e)), (''type'', PStr (exn_name e))])
              else Inl e
          | Inr v \<Rightarrow> Inr v,
          [params]))"

section \<open>The HTTP boundary\<close>

text \<open>
  The request model. The generation options are held as Python values: None, a value of
  the declared type, or the default written in the class.
\<close>

record ChatRequest =
  user_message :: string
  system_message :: "string option"
  max_tokens :: pyval
  temperature :: pyval
  top_p :: pyval
  frequency_penalty :: pyval
  presence_penalty :: pyval
  stop :: pyval
  stream :: pyval

record http_response =
  status_code :: nat
  body :: pyval

text \<open>
  The conditional expression of line 172: the condition
  \<^verbatim>\<open>response.completion.choices\<close> is evaluated first.
\<close>

definition first_choice_content :: "pyval \<Rightarrow> exn + pyval" where
  "first_choice_content response =
     (case getattr response ''completion'' of
        Inl e \<Rightarrow> Inl e
      | Inr c \<Rightarrow>
     (case getattr c ''choices'' of
        Inl e \<Rightarrow> Inl e
      | Inr cs \<Rightarrow>
          if truthy cs then
            (case subscript0 cs of
               Inl e \<Rightarrow> Inl e
             | Inr ch \<Rightarrow>
            (case getattr ch ''message'' of
               Inl e \<Rightarrow> Inl e
             | Inr m \<Rightarrow> getattr m ''content''))
          else Inr (PDict [(''message'', PStr ''No content returned'')])))"

text \<open>
  \<^verbatim>\<open>chat_endpoint\<close>, with the framework's rendering of its outcome: a returned value is
  the body of a 200 response, and \<^verbatim>\<open>HTTPException(status_code, detail)\<close> is a response
  with that status and the body \<^verbatim>\<open>{"detail": detail}\<close>. The exception raised on line 170
  is raised inside the \<^verbatim>\<open>try\<close>, so the \<^verbatim>\<open>except Exception\<close> clause of line 177 handles it
  like any other exception that derives from \<^verbatim>\<open>Exception\<close>; an exception that does not
  leaves the function. The string form of an \<^verbatim>\<open>HTTPException\<close> is the web framework's;
  it is the parameter \<open>http_exception_str\<close>, a function of the status code and the
  detail. \<^verbatim>\<open>traceback.print_exc()\<close> writes to the log only.
\<close>

definition chat_endpoint ::
  "(nat \<Rightarrow> pyval \<Rightarrow> string) \<Rightarrow> ChatAPI \<Rightarrow> ChatRequest \<Rightarrow>
     (exn + http_response) \<times> pyval list" where
  "chat_endpoint http_exception_str chat_api chat_request =
     (let (r, sent) =
            create_chat_completion chat_api
              (user_message chat_request) (system_message chat_request)
              (map_of
                [(''max_tokens'', max_tokens chat_request),
                 (''temperature'', temperature chat_request),
                 (''top_p'', top_p chat_request),
                 (''frequency_penalty'', frequency_penalty chat_request),
                 (''presence_penalty'', presence_penalty chat_request),
                 (''stop'', stop chat_request),
                 (''stream'', stream chat_request)]);
          attempt =
            (case r of
               Inl e \<Rightarrow> Inl e
             | Inr response \<Rightarrow>
                 (case contains ''error'' response of
                    Inl e \<Rightarrow> Inl e
                  | Inr True \<Rightarrow>
                      Inl \<lparr>exn_name = ''HTTPException'',
                           exn_str = http_exception_str 500 response,
                           derives_Exception = True\<rparr>
                  | Inr False \<Rightarrow> first_choice_content response))
      in (case attempt of
            Inl e \<Rightarrow>
              if derives_Exception e then
                Inr \<lparr>status_code = 500, body = PDict [(''detail'', PStr (exn_str e))]\<rparr>
              else Inl e
          | Inr v \<Rightarrow> Inr \<lparr>status_code = 200, body = v\<rparr>,
          sent))"

subsection \<open>Schema validation\<close>

text \<open>
  The route takes a \<^verbatim>\<open>ChatRequest\<close>, so the framework validates the decoded JSON body
  against the class before \<^verbatim>\<open>chat_endpoint\<close> runs, and answers 422 itself when
  validation fails; \<^verbatim>\<open>chat_endpoint\<close> is then not called. The body is the Python value
  the JSON text decodes to. What the class declares decides the following:
  \<^item> the body must be an object; keys that name no field are ignored;
  \<^item> \<^verbatim>\<open>user_message: str\<close> has no default, so it is required, null is not a string, and
    a string is taken as it is: the class puts no constraint on its length;
  \<^item> an \<^verbatim>\<open>Optional\<close> field takes null as None, takes a value of its declared type as
    it is, and when absent has the default written in the class, which is not validated.

  What the validation library does with a value that is not of the declared type (it
  converts some, such as the string "800" for an integer, and refuses the others) differs
  between its releases and is not in this repository: it is the parameter \<open>conv\<close>, one
  conversion for each declared type, where None means that the value is refused.
\<close>

record coercions =
  coerce_str :: "pyval \<Rightarrow> string option"
  coerce_int :: "pyval \<Rightarrow> int option"
  coerce_float :: "pyval \<Rightarrow> rat option"
  coerce_list :: "pyval \<Rightarrow> pyval list option"
  coerce_bool :: "pyval \<Rightarrow> bool option"

datatype validation_error =
    Body_not_an_object
  | Field_required string
  | Field_invalid string

fun validate_str :: "coercions \<Rightarrow> pyval \<Rightarrow> string option" where
  "validate_str conv (PStr s) = Some s"
| "validate_str conv PNone = None"
| "validate_str conv v = coerce_str conv v"

fun validate_int :: "coercions \<Rightarrow> pyval \<Rightarrow> pyval option" where
  "validate_int conv (PInt i) = Some (PInt i)"
| "validate_int conv v = map_option PInt (coerce_int conv v)"

fun validate_float :: "coercions \<Rightarrow> pyval \<Rightarrow> pyval option" where
  "validate_float conv (PFloat q) = Some (PFloat q)"
| "validate_float conv v = map_option PFloat (coerce_float conv v)"

fun validate_list :: "coercions \<Rightarrow> pyval \<Rightarrow> pyval option" where
  "validate_list conv (PList xs) = Some (PList xs)"
| "validate_list conv v = map_option PList (coerce_list conv v)"

fun validate_bool :: "coercions \<Rightarrow> pyval \<Rightarrow> pyval option" where
  "validate_bool conv (PBool b) = Some (PBool b)"
| "validate_bool conv v = map_option PBool (coerce_bool conv v)"

text \<open>The outcome of one field: its value, or the errors found. The fields are validated
  one by one and all errors are reported together.\<close>

definition required_str ::
  "coercions \<Rightarrow> string \<Rightarrow> pyval option \<Rightarrow> validation_error list + string" where
  "required_str conv name fld =
     (case fld of
        None \<Rightarrow> Inl [Field_required name]
      | Some v \<Rightarrow>
          (case validate_str conv v of
             None \<Rightarrow> Inl [Field_invalid name]
           | Some s \<Rightarrow> Inr s))"

definition optional_str ::
  "coercions \<Rightarrow> string \<Rightarrow> pyval option \<Rightarrow> validation_error list + string option" where
  "optional_str conv name fld =
     (case fld of
        None \<Rightarrow> Inr None
      | Some v \<Rightarrow>
          if v = PNone then Inr None
          else (case validate_str conv v of
                  None \<Rightarrow> Inl [Field_invalid name]
                | Some s \<Rightarrow> Inr (Some s)))"

definition optional_field ::
  "(pyval \<Rightarrow> pyval option) \<Rightarrow> string \<Rightarrow> pyval \<Rightarrow> pyval option \<Rightarrow>
     validation_error list + pyval" where
  "optional_field validate name dflt fld =
     (case fld of
        None \<Rightarrow> Inr dflt
      | Some v \<Rightarrow>
          if v = PNone then Inr PNone
          else (case validate v of
                  None \<Rightarrow> Inl [Field_invalid name]
                | Some w \<Rightarrow> Inr w))"

fun both ::
  "validation_error list + 'a \<Rightarrow> validation_error list + 'b \<Rightarrow>
     validation_error list + 'a \<times> 'b" where
  "both (Inr a) (Inr b) = Inr (a, b)"
| "both (Inl es) (Inr b) = Inl es"
| "both (Inr a) (Inl es) = Inl es"
| "both (Inl es) (Inl es') = Inl (es @ es')"

definition ChatRequest_validate ::
  "coercions \<Rightarrow> pyval \<Rightarrow> validation_error list + ChatRequest" where
  "ChatRequest_validate conv b =
     (case b of
        PDict kvs \<Rightarrow>
          (case
             both (required_str conv ''user_message'' (map_of kvs ''user_message''))
            (both (optional_str conv ''system_message'' (map_of kvs ''system_message''))
            (both (optional_field (validate_int conv) ''max_tokens'' (PInt 800)
                     (map_of kvs ''max_tokens''))
            (both (optional_field (validate_float conv) ''temperature'' (PFloat (7 / 10))
                     (map_of kvs ''temperature''))
            (both (optional_field (validate_float conv) ''top_p'' (PFloat (95 / 100))
                     (map_of kvs ''top_p''))
            (both (optional_field (validate_float conv) ''frequency_penalty'' (PInt 0)
                     (map_of kvs ''frequency_penalty''))
            (both (optional_field (validate_float conv) ''presence_penalty'' (PInt 0)
                     (map_of kvs ''presence_penalty''))
            (both (optional_field (validate_list conv) ''stop'' PNone
                     (map_of kvs ''stop''))
                  (optional_field (validate_bool conv) ''stream'' (PBool False)
                     (map_of kvs ''stream''))))))))) of
             Inl errs \<Rightarrow> Inl errs
           | Inr (um, sm, mt, te, tp, fp, pp, st, sr) \<Rightarrow>
               Inr \<lparr>user_message = um, system_message = sm, max_tokens = mt,
                    temperature = te, top_p = tp, frequency_penalty = fp,
                    presence_penalty = pp, stop = st, stream = sr\<rparr>)
      | _ \<Rightarrow> Inl [Body_not_an_object])"

text \<open>
  \<^verbatim>\<open>POST /chat\<close>: validation, then the endpoint function. The request ends without a
  response of \<^verbatim>\<open>chat_endpoint\<close> when validation rejects it, or when an exception leaves
  \<^verbatim>\<open>chat_endpoint\<close>.
\<close>

datatype refusal = Rejected "validation_error list" | Escaped exn

definition post_chat ::
  "(nat \<Rightarrow> pyval \<Rightarrow> string) \<Rightarrow> coercions \<Rightarrow> ChatAPI \<Rightarrow> pyval \<Rightarrow>
     (refusal + http_response) \<times> pyval list" where
  "post_chat http_exception_str conv chat_api b =
     (case ChatRequest_validate conv b of
        Inl errs \<Rightarrow> (Inl (Rejected errs), [])
      | Inr chat_request \<Rightarrow>
          (let (outcome, sent) = chat_endpoint http_exception_str chat_api chat_request
           in (case outcome of
                 Inl e \<Rightarrow> Inl (Escaped e)
               | Inr resp \<Rightarrow> Inr resp,
               sent)))"

section \<open>Reading an assembled message\<close>

text \<open>
  Observers for stating properties of the dicts the program builds: the value under a
  key, the role of a message, and the text of its first content block.
\<close>

fun dict_get :: "pyval \<Rightarrow> string \<Rightarrow> pyval option" where
  "dict_get (PDict kvs) k = map_of kvs k"
| "dict_get _ k = None"

fun dict_keys :: "pyval \<Rightarrow> string list" where
  "dict_keys (PDict kvs) = map fst kvs"
| "dict_keys _ = []"

definition message_role :: "pyval \<Rightarrow> pyval option" where
  "message_role m = dict_get m ''role''"

definition message_text :: "pyval \<Rightarrow> pyval option" where
  "message_text m =
     (case dict_get m ''content'' of
        Some (PList [blk]) \<Rightarrow> dict_get blk ''text''
      | _ \<Rightarrow> None)"

section \<open>The specification's constants and the example requests\<close>

text \<open>The default persona text, as the specification words it.\<close>

definition default_persona :: string where
  "default_persona = ''You are an AI assistant that helps people find information.''"

text \<open>The generation options and the defaults the specification lists for them:
  800, 0.7, 0.95, 0, 0, absent and false.\<close>

definition knob_defaults :: "(string \<times> pyval) list" where
  "knob_defaults =
     [(''max_tokens'', PInt 800),
      (''temperature'', PFloat (7 / 10)),
      (''top_p'', PFloat (95 / 100)),
      (''frequency_penalty'', PInt 0),
      (''presence_penalty'', PInt 0),
      (''stop'', PNone),
      (''stream'', PBool False)]"

text \<open>The five required settings, in the order the constructor reads them.\<close>

definition required_vars :: "string list" where
  "required_vars =
     [''AZURE_OPENAI_ENDPOINT'', ''AZURE_OPENAI_DEPLOYMENT_NAME'',
      ''AZURE_TENANT_ID'', ''AZURE_CLIENT_ID'', ''AZURE_CLIENT_SECRET'']"

definition missing :: "environ \<Rightarrow> string \<Rightarrow> bool" where
  "missing env v = (case env v of None \<Rightarrow> True | Some val \<Rightarrow> val = [])"

text \<open>The error dict that the gateway builds from an exception.\<close>

definition error_record :: "exn \<Rightarrow> pyval" where
  "error_record e = PDict [(''error'', PStr (exn_str e)), (''type'', PStr (exn_name e))]"

text \<open>A body that gives \<^verbatim>\<open>user_message\<close> only, as \<^verbatim>\<open>{"user_message": "Hello"}\<close> does.\<close>

definition only_user_message :: "string \<Rightarrow> pyval" where
  "only_user_message u = PDict [(''user_message'', PStr u)]"

text \<open>A validation library that converts nothing: a value that is not of the declared
  type is refused.\<close>

definition no_coercion :: coercions where
  "no_coercion =
     \<lparr>coerce_str = (\<lambda>v. None), coerce_int = (\<lambda>v. None), coerce_float = (\<lambda>v. None),
      coerce_list = (\<lambda>v. None), coerce_bool = (\<lambda>v. None)\<rparr>"

text \<open>A configured gateway whose upstream call behaves as the given function.\<close>

definition api_with :: "client \<Rightarrow> ChatAPI" where
  "api_with c =
     \<lparr>endpoint = ''https://example.openai.azure.com'', deployment = ''gpt-4o'',
      api_version = ''2025-01-01-preview'', client = c\<rparr>"

text \<open>Four upstreams: one answers with the single choice "Hi there!", one answers with
  no choice at all, one raises an exception of the client library, and one is interrupted
  from the keyboard during the call.\<close>

definition upstream_hi_there :: client where
  "upstream_hi_there params =
     Inr (ChatCompletion [Choice (ChatCompletionMessage (Some ''Hi there!''))])"

definition upstream_no_choice :: client where
  "upstream_no_choice params = Inr (ChatCompletion [])"

definition upstream_raises :: client where
  "upstream_raises params =
     Inl \<lparr>exn_name = ''RateLimitError'', exn_str = ''quota exceeded'',
          derives_Exception = True\<rparr>"

definition upstream_interrupted :: client where
  "upstream_interrupted params =
     Inl \<lparr>exn_name = ''KeyboardInterrupt'', exn_str = [], derives_Exception = False\<rparr>"

text \<open>An environment with all five required settings, and library constructors that
  succeed and build the client that answers "Hi there!".\<close>

definition full_env :: environ where
  "full_env =
     map_of
       [(''AZURE_OPENAI_ENDPOINT'', ''https://example.openai.azure.com''),
        (''AZURE_OPENAI_DEPLOYMENT_NAME'', ''gpt-4o''),
        (''AZURE_TENANT_ID'', ''tenant''),
        (''AZURE_CLIENT_ID'', ''app''),
        (''AZURE_CLIENT_SECRET'', ''secret'')]"

definition working_sdk :: "(unit, unit) sdk" where
  "working_sdk =
     \<lparr>ClientSecretCredential = (\<lambda>tenant_id client_id client_secret. Inr ()),
      get_bearer_token_provider = (\<lambda>credential scope. Inr ()),
      AzureOpenAI = (\<lambda>azure_endpoint token_provider version. Inr upstream_hi_there)\<rparr>"

section \<open>What the gateway sends and returns\<close>

lemma completion_content_json_raises:
  "completion_content_json completion =
     Inl (case completion of
            ChatCompletion cs \<Rightarrow> AttributeError ''list'' ''message''
          | Stream \<Rightarrow> AttributeError ''Stream'' ''choices'')"
  by (simp add: completion_content_json_def list_getattr_def split: response.split)

lemma create_chat_completion_sent:
  "snd (create_chat_completion self u s kw) =
     [PDict
        [(''model'', PStr (deployment self)),
         (''messages'', PList (build_messages u s)),
         (''max_tokens'', kwargs_get kw ''max_tokens'' (PInt 800)),
         (''temperature'', kwargs_get kw ''temperature'' (PFloat (7 / 10))),
         (''top_p'', kwargs_get kw ''top_p'' (PFloat (95 / 100))),
         (''frequency_penalty'', kwargs_get kw ''frequency_penalty'' (PInt 0)),
         (''presence_penalty'', kwargs_get kw ''presence_penalty'' (PInt 0)),
         (''stop'', kwargs_get kw ''stop'' PNone),
         (''stream'', kwargs_get kw ''stream'' (PBool False))]]"
  by (simp add: create_chat_completion_def Let_def)

lemma build_messages_two:
  "build_messages u s =
     [PDict [(''role'', PStr ''system''),
             (''content'', PList [PDict [(''type'', PStr ''text''),
                (''text'', PStr (case s of None \<Rightarrow> default_persona
                                 | Some t \<Rightarrow> if t = [] then default_persona else t))]])],
      PDict [(''role'', PStr ''user''),
             (''content'', PList [PDict [(''type'', PStr ''text''), (''text'', PStr u)]])]]"
  by (simp add: build_messages_def default_persona_def Let_def split: option.split)

lemma create_chat_completion_raised:
  assumes "snd (create_chat_completion self u s kw) = [p]" and "client self p = Inl e"
  shows "fst (create_chat_completion self u s kw) =
     (if derives_Exception e then Inr (error_record e) else Inl e)"
  using assms by (simp add: create_chat_completion_def Let_def error_record_def)

lemma create_chat_completion_answered:
  assumes "snd (create_chat_completion self u s kw) = [p]" and "client self p = Inr completion"
  shows "fst (create_chat_completion self u s kw) =
     Inr (error_record (case completion of
            ChatCompletion cs \<Rightarrow> AttributeError ''list'' ''message''
          | Stream \<Rightarrow> AttributeError ''Stream'' ''choices''))"
  using assms
  by (simp add: create_chat_completion_def Let_def error_record_def
      completion_content_json_raises AttributeError_def split: response.split)

lemma ChatRequest_validate_only_user_message:
  "ChatRequest_validate conv (only_user_message u) =
     Inr \<lparr>user_message = u, system_message = None, max_tokens = PInt 800,
          temperature = PFloat (7 / 10), top_p = PFloat (95 / 100),
          frequency_penalty = PInt 0, presence_penalty = PInt 0, stop = PNone,
          stream = PBool False\<rparr>"
  by (simp add: ChatRequest_validate_def only_user_message_def required_str_def
      optional_str_def optional_field_def)

lemma case_sum_both_Inl:
  "case_sum f g (both (Inl es) y) = f (case y of Inl es' \<Rightarrow> es @ es' | Inr r \<Rightarrow> es)"
  by (cases y) simp_all

subsection \<open>A successful upstream call\<close>

text \<open>
  C1. With an upstream that answers the request \<^verbatim>\<open>{"user_message": "Hello"}\<close> with the
  single choice "Hi there!", the gateway does not return that content: reading
  \<^verbatim>\<open>message\<close> on the list of choices raises AttributeError, the gateway returns the error
  dict of that exception, and \<^verbatim>\<open>POST /chat\<close> answers with status 500, whatever the string
  form of an HTTPException is.
\<close>

theorem first_choice_content_not_returned:
  "fst (create_chat_completion (api_with upstream_hi_there) ''Hello'' None Map.empty) =
     Inr (PDict [(''error'', PStr (quote ''list'' @ '' object has no attribute '' @ quote ''message'')),
                 (''type'', PStr ''AttributeError'')]) \<and>
   fst (post_chat http_exception_str conv (api_with upstream_hi_there) (only_user_message ''Hello'')) =
     Inr \<lparr>status_code = 500,
          body = PDict [(''detail'', PStr (http_exception_str 500
            (PDict [(''error'', PStr (quote ''list'' @ '' object has no attribute '' @ quote ''message'')),
                    (''type'', PStr ''AttributeError'')])))]\<rparr>"
  by (simp add: post_chat_def ChatRequest_validate_only_user_message chat_endpoint_def
      create_chat_completion_def Let_def api_with_def upstream_hi_there_def
      completion_content_json_raises AttributeError_def)

text \<open>
  C2. With an upstream that answers with an empty list of choices, the gateway returns
  the same AttributeError error dict, not the "No content returned" value, and
  \<^verbatim>\<open>POST /chat\<close> answers with status 500.
\<close>

theorem empty_choices_yield_error_record:
  "fst (create_chat_completion (api_with upstream_no_choice) ''Hello'' None Map.empty) =
     Inr (PDict [(''error'', PStr (quote ''list'' @ '' object has no attribute '' @ quote ''message'')),
                 (''type'', PStr ''AttributeError'')]) \<and>
   fst (post_chat http_exception_str conv (api_with upstream_no_choice) (only_user_message ''Hello'')) =
     Inr \<lparr>status_code = 500,
          body = PDict [(''detail'', PStr (http_exception_str 500
            (PDict [(''error'', PStr (quote ''list'' @ '' object has no attribute '' @ quote ''message'')),
                    (''type'', PStr ''AttributeError'')])))]\<rparr>"
  by (simp add: post_chat_def ChatRequest_validate_only_user_message chat_endpoint_def
      create_chat_completion_def Let_def api_with_def upstream_no_choice_def
      completion_content_json_raises AttributeError_def)

subsection \<open>A failing upstream call\<close>

text \<open>
  C3. With an upstream that raises RateLimitError("quota exceeded"), the gateway returns
  the error dict with that message and that kind. \<^verbatim>\<open>POST /chat\<close> answers with status 500,
  but the detail of its body is a string, the string form of the HTTPException that
  carried the error dict; it is not the error dict.
\<close>

theorem error_record_not_in_http_body:
  "fst (create_chat_completion (api_with upstream_raises) ''Hello'' None Map.empty) =
     Inr (PDict [(''error'', PStr ''quota exceeded''), (''type'', PStr ''RateLimitError'')]) \<and>
   fst (post_chat http_exception_str conv (api_with upstream_raises) (only_user_message ''Hello'')) =
     Inr \<lparr>status_code = 500,
          body = PDict [(''detail'', PStr (http_exception_str 500
            (PDict [(''error'', PStr ''quota exceeded''), (''type'', PStr ''RateLimitError'')])))]\<rparr> \<and>
   fst (post_chat http_exception_str conv (api_with upstream_raises) (only_user_message ''Hello'')) \<noteq>
     Inr \<lparr>status_code = 500,
          body = PDict [(''detail'',
            PDict [(''error'', PStr ''quota exceeded''), (''type'', PStr ''RateLimitError'')])]\<rparr>"
  by (simp add: post_chat_def ChatRequest_validate_only_user_message chat_endpoint_def
      create_chat_completion_def Let_def api_with_def upstream_raises_def)

subsection \<open>Message assembly\<close>

text \<open>
  C4. In every call of \<^verbatim>\<open>create_chat_completion\<close>, one parameter record is sent upstream;
  the text of its first message is the system message itself when one is given and is not
  empty, and the default persona text otherwise.
\<close>

theorem system_message_verbatim_or_default:
  "\<exists>p m1 m2. snd (create_chat_completion self u s kw) = [p] \<and>
     dict_get p ''messages'' = Some (PList [m1, m2]) \<and>
     build_messages u s = [m1, m2] \<and>
     message_text m1 =
       Some (PStr (case s of None \<Rightarrow> default_persona
                   | Some t \<Rightarrow> if t = [] then default_persona else t))"
  by (simp add: create_chat_completion_sent build_messages_two message_text_def)

theorem system_message_verbatim_or_default_witness:
  "message_text (hd (build_messages ''Hello'' (Some '' Be terse. ''))) = Some (PStr '' Be terse. '') \<and>
   message_text (hd (build_messages ''Hello'' (Some []))) =
     Some (PStr ''You are an AI assistant that helps people find information.'') \<and>
   message_text (hd (build_messages ''Hello'' None)) =
     Some (PStr ''You are an AI assistant that helps people find information.'')"
  using system_message_verbatim_or_default [of "api_with upstream_hi_there" "''Hello''" "Some '' Be terse. ''" Map.empty]
    system_message_verbatim_or_default [of "api_with upstream_hi_there" "''Hello''" "Some []" Map.empty]
    system_message_verbatim_or_default [of "api_with upstream_hi_there" "''Hello''" None Map.empty]
  by (auto simp add: default_persona_def)

text \<open>
  C5. In every call of \<^verbatim>\<open>create_chat_completion\<close>, the message list of the parameter
  record sent upstream has exactly two entries: the first has the role system, the
  second the role user.
\<close>

theorem two_messages_system_then_user:
  "\<exists>p m1 m2. snd (create_chat_completion self u s kw) = [p] \<and>
     dict_get p ''messages'' = Some (PList [m1, m2]) \<and>
     build_messages u s = [m1, m2] \<and>
     message_role m1 = Some (PStr ''system'') \<and> message_role m2 = Some (PStr ''user'')"
  by (simp add: create_chat_completion_sent build_messages_two message_role_def)

theorem two_messages_system_then_user_witness:
  "map message_role (build_messages ''Hello'' (Some ''Be terse.'')) =
     [Some (PStr ''system''), Some (PStr ''user'')]"
  using two_messages_system_then_user [of "api_with upstream_hi_there" "''Hello''" "Some ''Be terse.''" Map.empty]
  by auto

text \<open>
  C10. For every user message, the empty string and strings of blanks included, the text
  of the second message sent upstream is that string, unchanged.
\<close>

theorem user_message_verbatim:
  "\<exists>p m1 m2. snd (create_chat_completion self u s kw) = [p] \<and>
     dict_get p ''messages'' = Some (PList [m1, m2]) \<and>
     build_messages u s = [m1, m2] \<and>
     message_text m2 = Some (PStr u)"
  by (simp add: create_chat_completion_sent build_messages_two message_text_def)

theorem user_message_verbatim_witness:
  "message_text (build_messages [] None ! 1) = Some (PStr []) \<and>
   message_text (build_messages ''  '' None ! 1) = Some (PStr ''  '')"
  using user_message_verbatim [of "api_with upstream_hi_there" "[]" None Map.empty]
    user_message_verbatim [of "api_with upstream_hi_there" "''  ''" None Map.empty]
  by auto

subsection \<open>The parameter record\<close>

text \<open>
  C9. In every call of \<^verbatim>\<open>create_chat_completion\<close>, the parameter record sent upstream
  has the keys model, messages and the seven generation options, in this order; model is
  the configured deployment, messages is the assembled list, and each option is the value
  given in the keyword arguments, whatever it is, or its default when the keyword is not
  given.
\<close>

theorem params_passed_unmodified:
  "\<exists>p. snd (create_chat_completion self u s kw) = [p] \<and>
     dict_keys p = [''model'', ''messages''] @ map fst knob_defaults \<and>
     dict_get p ''model'' = Some (PStr (deployment self)) \<and>
     dict_get p ''messages'' = Some (PList (build_messages u s)) \<and>
     (\<forall>(k, d) \<in> set knob_defaults.
        dict_get p k = Some (case kw k of None \<Rightarrow> d | Some v \<Rightarrow> v))"
  by (simp add: create_chat_completion_sent knob_defaults_def kwargs_get_def)

theorem params_passed_unmodified_witness:
  "\<exists>p. snd (create_chat_completion (api_with upstream_hi_there) ''Hello'' None
             (map_of [(''temperature'', PFloat 5), (''max_tokens'', PInt (- 3))])) = [p] \<and>
     dict_get p ''model'' = Some (PStr ''gpt-4o'') \<and>
     dict_get p ''temperature'' = Some (PFloat 5) \<and>
     dict_get p ''max_tokens'' = Some (PInt (- 3)) \<and>
     dict_get p ''top_p'' = Some (PFloat (95 / 100)) \<and>
     dict_get p ''frequency_penalty'' = Some (PInt 0) \<and>
     dict_get p ''presence_penalty'' = Some (PInt 0) \<and>
     dict_get p ''stop'' = Some PNone \<and>
     dict_get p ''stream'' = Some (PBool False)"
  using params_passed_unmodified [of "api_with upstream_hi_there" "''Hello''" None
      "map_of [(''temperature'', PFloat 5), (''max_tokens'', PInt (- 3))]"]
  by (auto simp add: knob_defaults_def api_with_def)

subsection \<open>Which exceptions leave the gateway\<close>

text \<open>
  C6, as the claim states it, fails: the clause of line 115 is \<^verbatim>\<open>except Exception\<close>, and
  a \<^verbatim>\<open>KeyboardInterrupt\<close> raised during the upstream call does not derive from
  \<^verbatim>\<open>Exception\<close>. It leaves \<^verbatim>\<open>create_chat_completion\<close> and reaches the caller.
\<close>

theorem keyboard_interrupt_propagates:
  "fst (create_chat_completion (api_with upstream_interrupted) ''Hello'' None Map.empty) =
     Inl \<lparr>exn_name = ''KeyboardInterrupt'', exn_str = [], derives_Exception = False\<rparr>"
  by (simp add: create_chat_completion_def Let_def api_with_def upstream_interrupted_def)

text \<open>
  C6, amended. For every input, \<^verbatim>\<open>create_chat_completion\<close> makes one upstream call.
  When that call raises an exception that derives from \<^verbatim>\<open>Exception\<close>, the function
  returns the error dict with the message and the kind of that exception. When the call
  returns, the function returns a value, and if reading the answer raised, the value is
  the error dict of that exception. In neither case does an exception reach the caller.
\<close>

theorem create_chat_completion_catches_Exception:
  "\<exists>p. snd (create_chat_completion self u s kw) = [p] \<and>
     (\<forall>e. client self p = Inl e \<and> derives_Exception e \<longrightarrow>
        fst (create_chat_completion self u s kw) = Inr (error_record e)) \<and>
     (\<forall>completion. client self p = Inr completion \<longrightarrow>
        (\<exists>v. fst (create_chat_completion self u s kw) = Inr v \<and>
           (\<forall>e. completion_content_json completion = Inl e \<longrightarrow> v = error_record e)))"
proof -
  obtain p where p: "snd (create_chat_completion self u s kw) = [p]"
    by (simp add: create_chat_completion_sent)
  have "fst (create_chat_completion self u s kw) = Inr (error_record e)"
    if "client self p = Inl e" and "derives_Exception e" for e
    using create_chat_completion_raised [OF p that(1)] that(2) by simp
  moreover have "\<exists>v. fst (create_chat_completion self u s kw) = Inr v \<and>
      (\<forall>e. completion_content_json completion = Inl e \<longrightarrow> v = error_record e)"
    if "client self p = Inr completion" for completion
    using create_chat_completion_answered [OF p that]
    by (simp add: completion_content_json_raises)
  ultimately show ?thesis using p by blast
qed

theorem create_chat_completion_catches_Exception_witness:
  "fst (create_chat_completion (api_with upstream_raises) ''Hello'' None Map.empty) =
     Inr (PDict [(''error'', PStr ''quota exceeded''), (''type'', PStr ''RateLimitError'')]) \<and>
   (\<exists>v. fst (create_chat_completion (api_with upstream_hi_there) ''Hello'' None Map.empty) =
      Inr v)"
  using
    create_chat_completion_catches_Exception [of "api_with upstream_raises" "''Hello''" None Map.empty]
    create_chat_completion_catches_Exception [of "api_with upstream_hi_there" "''Hello''" None Map.empty]
  by (auto simp add: api_with_def upstream_raises_def upstream_hi_there_def error_record_def)

section \<open>Schema validation of the user message\<close>

text \<open>
  C7, as the claim states it, fails: the body \<^verbatim>\<open>{"user_message": ""}\<close> passes
  validation, with the empty string as its user message.
\<close>

theorem empty_user_message_accepted:
  "ChatRequest_validate no_coercion (only_user_message []) =
     Inr \<lparr>user_message = [], system_message = None, max_tokens = PInt 800,
          temperature = PFloat (7 / 10), top_p = PFloat (95 / 100),
          frequency_penalty = PInt 0, presence_penalty = PInt 0, stop = PNone,
          stream = PBool False\<rparr>"
  by (simp add: ChatRequest_validate_def only_user_message_def required_str_def
      optional_str_def optional_field_def)

text \<open>
  C7, amended. A request whose \<^verbatim>\<open>user_message\<close> field is absent or null is rejected by
  validation, whatever its other fields are and whatever the library converts:
  \<^verbatim>\<open>chat_endpoint\<close> is not called and nothing is sent upstream.
\<close>

theorem missing_user_message_rejected:
  "dict_get b ''user_message'' = None \<or> dict_get b ''user_message'' = Some PNone \<longrightarrow>
     (\<exists>errs. post_chat http_exception_str conv chat_api b = (Inl (Rejected errs), []))"
proof
  assume a: "dict_get b ''user_message'' = None \<or> dict_get b ''user_message'' = Some PNone"
  have "\<exists>errs. ChatRequest_validate conv b = Inl errs"
  proof (cases b)
    case (PDict kvs)
    with a have "\<exists>es. required_str conv ''user_message'' (map_of kvs ''user_message'') = Inl es"
      by (auto simp add: required_str_def)
    then obtain es where
      "required_str conv ''user_message'' (map_of kvs ''user_message'') = Inl es" ..
    with PDict show ?thesis
      by (simp add: ChatRequest_validate_def case_sum_both_Inl)
  qed (simp_all add: ChatRequest_validate_def)
  then show "\<exists>errs. post_chat http_exception_str conv chat_api b = (Inl (Rejected errs), [])"
    by (auto simp add: post_chat_def)
qed

theorem missing_user_message_rejected_witness:
  "(\<exists>errs. post_chat (\<lambda>status detail. []) no_coercion (api_with upstream_hi_there)
            (PDict [(''system_message'', PStr ''Be terse.'')]) = (Inl (Rejected errs), [])) \<and>
   (\<exists>errs. post_chat (\<lambda>status detail. []) no_coercion (api_with upstream_hi_there)
            (PDict [(''user_message'', PNone)]) = (Inl (Rejected errs), []))"
  using
    missing_user_message_rejected [of "PDict [(''system_message'', PStr ''Be terse.'')]"
      "\<lambda>status detail. []" no_coercion "api_with upstream_hi_there"]
    missing_user_message_rejected [of "PDict [(''user_message'', PNone)]"
      "\<lambda>status detail. []" no_coercion "api_with upstream_hi_there"]
  by simp

section \<open>Construction fails fast\<close>

lemma get_required_env_missing:
  "get_required_env env v =
     (if missing env v then Inl (ValueError (''Missing required environment variable: '' @ v))
      else Inr (the (env v)))"
  by (simp add: get_required_env_def missing_def split: option.split)

lemma ChatAPI_init_endpoint_missing:
  "missing env ''AZURE_OPENAI_ENDPOINT'' \<Longrightarrow>
   ChatAPI_init lib env =
     Inl (ValueError (''Missing required environment variable: '' @ ''AZURE_OPENAI_ENDPOINT''))"
  by (simp add: ChatAPI_init_def get_required_env_missing)

lemma ChatAPI_init_deployment_missing:
  "\<not> missing env ''AZURE_OPENAI_ENDPOINT'' \<Longrightarrow> missing env ''AZURE_OPENAI_DEPLOYMENT_NAME'' \<Longrightarrow>
   ChatAPI_init lib env =
     Inl (ValueError (''Missing required environment variable: '' @ ''AZURE_OPENAI_DEPLOYMENT_NAME''))"
  by (simp add: ChatAPI_init_def get_required_env_missing)

lemma initialize_client_missing:
  assumes "find (missing env) [''AZURE_TENANT_ID'', ''AZURE_CLIENT_ID'', ''AZURE_CLIENT_SECRET''] = Some w"
  shows "initialize_client lib env ep ver =
     Inl \<lparr>exn_name = ''Exception'',
          exn_str = ''Failed to initialize Azure OpenAI client: '' @
                    ''Missing required environment variable: '' @ w,
          derives_Exception = True\<rparr>"
  using assms
  by (auto simp add: initialize_client_def get_required_env_missing ValueError_def Let_def
      split: if_splits)

lemma initialize_client_ok:
  assumes "initialize_client lib env ep ver = Inr c"
  shows "\<not> missing env ''AZURE_TENANT_ID'' \<and> \<not> missing env ''AZURE_CLIENT_ID'' \<and>
         \<not> missing env ''AZURE_CLIENT_SECRET''"
  using assms
  by (auto simp add: initialize_client_def get_required_env_missing Let_def
      split: if_splits sum.splits)

lemma ChatAPI_init_credentials_missing:
  assumes "\<not> missing env ''AZURE_OPENAI_ENDPOINT''" and "\<not> missing env ''AZURE_OPENAI_DEPLOYMENT_NAME''"
    and "find (missing env) [''AZURE_TENANT_ID'', ''AZURE_CLIENT_ID'', ''AZURE_CLIENT_SECRET''] = Some w"
  shows "ChatAPI_init lib env =
     Inl \<lparr>exn_name = ''Exception'',
          exn_str = ''Failed to initialize Azure OpenAI client: '' @
                    ''Missing required environment variable: '' @ w,
          derives_Exception = True\<rparr>"
  using assms(1,2)
  by (simp add: ChatAPI_init_def get_required_env_missing Let_def
      initialize_client_missing [OF assms(3)])

lemma ChatAPI_init_ok:
  assumes "ChatAPI_init lib env = Inr chat_api"
  shows "\<forall>v \<in> set required_vars. \<not> missing env v"
proof -
  from assms have a: "\<not> missing env ''AZURE_OPENAI_ENDPOINT''"
    and b: "\<not> missing env ''AZURE_OPENAI_DEPLOYMENT_NAME''"
    by (auto simp add: ChatAPI_init_def get_required_env_missing split: if_splits)
  with assms obtain c ep ver where "initialize_client lib env ep ver = Inr c"
    by (auto simp add: ChatAPI_init_def get_required_env_missing Let_def split: sum.splits)
  from initialize_client_ok [OF this] a b show ?thesis
    by (simp add: required_vars_def)
qed

lemma ChatAPI_init_missing:
  assumes "v \<in> set required_vars" and "missing env v"
  shows "\<exists>e w. ChatAPI_init lib env = Inl e \<and>
           find (missing env) required_vars = Some w \<and>
           exn_str e =
             (if w \<in> {''AZURE_OPENAI_ENDPOINT'', ''AZURE_OPENAI_DEPLOYMENT_NAME''} then []
              else ''Failed to initialize Azure OpenAI client: '') @
             ''Missing required environment variable: '' @ w"
proof (cases "missing env ''AZURE_OPENAI_ENDPOINT''")
  case True
  then show ?thesis
    by (simp add: ChatAPI_init_endpoint_missing required_vars_def ValueError_def)
next
  case a: False
  show ?thesis
  proof (cases "missing env ''AZURE_OPENAI_DEPLOYMENT_NAME''")
    case True
    with a show ?thesis
      by (simp add: ChatAPI_init_deployment_missing required_vars_def ValueError_def)
  next
    case b: False
    from assms a b have "v \<in> set [''AZURE_TENANT_ID'', ''AZURE_CLIENT_ID'', ''AZURE_CLIENT_SECRET'']"
      by (auto simp add: required_vars_def)
    with assms(2) have "find (missing env) [''AZURE_TENANT_ID'', ''AZURE_CLIENT_ID'', ''AZURE_CLIENT_SECRET''] \<noteq> None"
      unfolding find_None_iff by blast
    then obtain w where
      w: "find (missing env) [''AZURE_TENANT_ID'', ''AZURE_CLIENT_ID'', ''AZURE_CLIENT_SECRET''] = Some w"
      by blast
    then have "w \<in> set [''AZURE_TENANT_ID'', ''AZURE_CLIENT_ID'', ''AZURE_CLIENT_SECRET'']"
      unfolding find_Some_iff by (metis nth_mem)
    then have nw: "w \<notin> {''AZURE_OPENAI_ENDPOINT'', ''AZURE_OPENAI_DEPLOYMENT_NAME''}"
      by auto
    from a b w have "find (missing env) required_vars = Some w"
      by (simp add: required_vars_def)
    with ChatAPI_init_credentials_missing [OF a b w, of lib] nw show ?thesis
      by simp
  qed
qed


text \<open>
  C8. When one of the five required settings is absent or empty, construction raises, the
  process is aborted and serves nothing, and the message of the exception names the
  first such setting in the order the constructor reads them: plainly for the endpoint
  and the deployment name, behind the prefix of the client initialisation failure for
  the three credentials. When construction succeeds, none of the five is absent or empty.
\<close>

theorem construction_fails_fast:
  "(\<forall>v \<in> set required_vars. missing env v \<longrightarrow>
      (\<exists>e w. ChatAPI_init lib env = Inl e \<and> startup lib env = Aborted e \<and>
         find (missing env) required_vars = Some w \<and>
         exn_str e =
           (if w \<in> {''AZURE_OPENAI_ENDPOINT'', ''AZURE_OPENAI_DEPLOYMENT_NAME''} then []
            else ''Failed to initialize Azure OpenAI client: '') @
           ''Missing required environment variable: '' @ w)) \<and>
   (\<forall>chat_api. ChatAPI_init lib env = Inr chat_api \<longrightarrow>
      startup lib env = Serving chat_api \<and> (\<forall>v \<in> set required_vars. \<not> missing env v))"
proof (intro conjI ballI allI impI)
  fix v assume "v \<in> set required_vars" and "missing env v"
  from ChatAPI_init_missing [OF this, of lib] obtain e w where
    e: "ChatAPI_init lib env = Inl e" and w: "find (missing env) required_vars = Some w"
    and msg: "exn_str e =
           (if w \<in> {''AZURE_OPENAI_ENDPOINT'', ''AZURE_OPENAI_DEPLOYMENT_NAME''} then []
            else ''Failed to initialize Azure OpenAI client: '') @
           ''Missing required environment variable: '' @ w"
    by blast
  from e have "startup lib env = Aborted e" by (simp add: startup_def)
  with e w msg
  show "\<exists>e w. ChatAPI_init lib env = Inl e \<and> startup lib env = Aborted e \<and>
         find (missing env) required_vars = Some w \<and>
         exn_str e =
           (if w \<in> {''AZURE_OPENAI_ENDPOINT'', ''AZURE_OPENAI_DEPLOYMENT_NAME''} then []
            else ''Failed to initialize Azure OpenAI client: '') @
           ''Missing required environment variable: '' @ w"
    by blast
next
  fix chat_api assume "ChatAPI_init lib env = Inr chat_api"
  then show "startup lib env = Serving chat_api" by (simp add: startup_def)
next
  fix chat_api v assume "ChatAPI_init lib env = Inr chat_api" and "v \<in> set required_vars"
  with ChatAPI_init_ok show "\<not> missing env v" by blast
qed


theorem construction_fails_fast_witness:
  "(\<exists>e. startup working_sdk (full_env(''AZURE_CLIENT_SECRET'' \<mapsto> [])) = Aborted e \<and>
        exn_str e = ''Failed to initialize Azure OpenAI client: Missing required environment variable: AZURE_CLIENT_SECRET'') \<and>
   (\<exists>chat_api. startup working_sdk full_env = Serving chat_api) \<and>
   list_all (\<lambda>v. \<not> missing full_env v) required_vars"
proof -
  have m: "missing (full_env(''AZURE_CLIENT_SECRET'' \<mapsto> [])) ''AZURE_CLIENT_SECRET''"
    by (simp add: missing_def)
  have f: "find (missing (full_env(''AZURE_CLIENT_SECRET'' \<mapsto> []))) required_vars =
      Some ''AZURE_CLIENT_SECRET''"
    by (simp add: required_vars_def missing_def full_env_def)
  have ok: "ChatAPI_init working_sdk full_env =
      Inr \<lparr>endpoint = ''https://example.openai.azure.com'', deployment = ''gpt-4o'',
           api_version = ''2025-01-01-preview'', client = upstream_hi_there\<rparr>"
    by (simp add: ChatAPI_init_def initialize_client_def get_required_env_def full_env_def
        working_sdk_def Let_def)
  from construction_fails_fast [of "full_env(''AZURE_CLIENT_SECRET'' \<mapsto> [])" working_sdk] m f
  have 1: "\<exists>e. startup working_sdk (full_env(''AZURE_CLIENT_SECRET'' \<mapsto> [])) = Aborted e \<and>
        exn_str e = ''Failed to initialize Azure OpenAI client: Missing required environment variable: AZURE_CLIENT_SECRET''"
    by (auto simp add: required_vars_def)
  from construction_fails_fast [of full_env working_sdk] ok
  have 2: "(\<exists>chat_api. startup working_sdk full_env = Serving chat_api) \<and>
     list_all (\<lambda>v. \<not> missing full_env v) required_vars"
    by (simp add: list_all_iff)
  from 1 2 show ?thesis by simp
qed


end
